theory Spec2Isabelle
  imports Main
begin

section \<open>The pdf-to-images handler (src/functions/pdf-to-images/app.py)\<close>

text \<open>
  The repository is one AWS Lambda handler.  It reads a job identifier from the trigger
  event, downloads \<^verbatim>\<open>{job_id}/original.pdf\<close> from S3, renders every page at scale 2,
  uploads each page as \<^verbatim>\<open>{job_id}_pages/page_{i+1}.png\<close> and publishes one
  \<^verbatim>\<open>ImagesGenerated\<close> event.

  The embedding is a state-passing one.  The handler is a function from the trigger
  event and the world (bucket contents, scratch files, published events, and the log of
  the calls made to the external libraries) to a result and the new world.  An exception
  is the \<open>Inl\<close> branch of the result.  What the external libraries answer (faults of S3
  and EventBridge, what pypdfium2 parses and renders) is read from a record \<open>env\<close>, so
  that every theorem holds for whatever they answer.  Logging is not modelled.
\<close>

subsection \<open>Values, exceptions, the world\<close>

text \<open>The trigger event is the Python value decoded from JSON.  Numbers are the integers;
  a dict is the list of its items, read with \<open>map_of\<close>.\<close>

datatype json =
    JNull
  | JBool bool
  | JInt int
  | JStr string
  | JArr "json list"
  | JObj "(string \<times> json) list"

text \<open>
  The exceptions of a run.  \<open>ValueError\<close> is what the handler raises itself (lines 30 and
  37); \<open>AttributeError\<close> (type name, attribute) is Python's for \<^verbatim>\<open>detail.get\<close> on a value
  that is no dict; the others are raised inside boto3, pypdfium2, PIL and os.
\<close>

datatype exn =
    ValueError string
  | AttributeError string string
  | ClientError string
  | FileNotFoundError string
  | PdfiumError string
  | OSError string

type_synonym blob = "nat list"
type_synonym pdf = "blob list"

text \<open>One entry of \<^verbatim>\<open>events_client.put_events(Entries=[...])\<close>; \<open>Detail\<close> is kept as the
  dict that \<^verbatim>\<open>json.dumps\<close> serialises.\<close>

record entry =
  Source :: string
  DetailType :: string
  Detail :: json
  EventBusName :: string

text \<open>The calls made to the external libraries, in the order they are made (a call is
  logged whether it succeeds or raises).\<close>

datatype call =
    DownloadFile string string string
  | PdfDocument string
  | Render nat nat
  | ImgSave string
  | UploadFile string string string
  | OsRemove string
  | PutEvents entry

record world =
  s3_objects :: "string \<times> string \<Rightarrow> blob option"
  tmp_files :: "string \<Rightarrow> blob option"
  published :: "entry list"
  calls :: "call list"

text \<open>
  What the surroundings answer: the process environment (\<^verbatim>\<open>os.environ\<close>), the faults of
  the S3 and EventBridge clients and of \<^verbatim>\<open>img.save\<close> (\<open>None\<close>: the call succeeds), the
  parser and the renderer of pdfium, and Python's \<^verbatim>\<open>str\<close> of a list or a dict.
\<close>

record env =
  environ :: "string \<Rightarrow> string option"
  download_fault :: "string \<Rightarrow> string \<Rightarrow> exn option"
  open_pdf :: "blob \<Rightarrow> exn + pdf"
  render_page :: "blob \<Rightarrow> nat \<Rightarrow> exn + blob"
  save_fault :: "string \<Rightarrow> exn option"
  upload_fault :: "string \<Rightarrow> string \<Rightarrow> exn option"
  put_events_fault :: "entry \<Rightarrow> exn option"
  py_repr :: "json \<Rightarrow> string"

subsection \<open>Python's truth values and string formatting\<close>

fun truthy :: "json \<Rightarrow> bool" where
  "truthy JNull = False"
| "truthy (JBool b) = b"
| "truthy (JInt n) = (n \<noteq> 0)"
| "truthy (JStr s) = (s \<noteq> [])"
| "truthy (JArr xs) = (xs \<noteq> [])"
| "truthy (JObj kvs) = (kvs \<noteq> [])"

definition digit_char :: "nat \<Rightarrow> char" where
  "digit_char d = ''0123456789'' ! d"

function show_nat :: "nat \<Rightarrow> string" where
  "show_nat n = (if n < 10 then [digit_char n] else show_nat (n div 10) @ [digit_char (n mod 10)])"
  by pat_completeness auto
termination
  by (relation "measure id") auto

declare show_nat.simps [simp del]

definition show_int :: "int \<Rightarrow> string" where
  "show_int i = (if i < 0 then CHR ''-'' # show_nat (nat (- i)) else show_nat (nat i))"

text \<open>\<^verbatim>\<open>f"{v}"\<close>: a string is inserted as it is, any other value through \<^verbatim>\<open>str\<close>.\<close>

definition py_str :: "env \<Rightarrow> json \<Rightarrow> string" where
  "py_str E v =
     (case v of
        JStr s \<Rightarrow> s
      | JInt n \<Rightarrow> show_int n
      | JBool b \<Rightarrow> (if b then ''True'' else ''False'')
      | JNull \<Rightarrow> ''None''
      | _ \<Rightarrow> py_repr E v)"

definition type_name :: "json \<Rightarrow> string" where
  "type_name v =
     (case v of
        JNull \<Rightarrow> ''NoneType''
      | JBool _ \<Rightarrow> ''bool''
      | JInt _ \<Rightarrow> ''int''
      | JStr _ \<Rightarrow> ''str''
      | JArr _ \<Rightarrow> ''list''
      | JObj _ \<Rightarrow> ''dict'')"

subsection \<open>Trigger decoding (lines 19-30)\<close>

text \<open>\<^verbatim>\<open>d.get(k, default)\<close> on a dict.\<close>

definition dict_get :: "(string \<times> json) list \<Rightarrow> string \<Rightarrow> json \<Rightarrow> json" where
  "dict_get d k dflt = (case map_of d k of None \<Rightarrow> dflt | Some v \<Rightarrow> v)"

text \<open>\<^verbatim>\<open>v.get(k)\<close> on any value: only a dict has the method.\<close>

definition py_get :: "json \<Rightarrow> string \<Rightarrow> exn + json" where
  "py_get v k =
     (case v of
        JObj d \<Rightarrow> Inr (dict_get d k JNull)
      | _ \<Rightarrow> Inl (AttributeError (type_name v) ''get''))"

text \<open>
  The outcome of lines 19-30: an exception, the bare \<^verbatim>\<open>return\<close> of the S3-event branch
  (\<open>Inr None\<close>), or the job identifier the rest of the handler works with.
\<close>

definition decode_trigger :: "(string \<times> json) list \<Rightarrow> exn + json option" where
  "decode_trigger event =
     (let detail = dict_get event ''detail'' (JObj []) in
      case py_get detail ''jobId'' of
        Inl e \<Rightarrow> Inl e
      | Inr job_id \<Rightarrow>
          if \<not> truthy job_id then
            (if map_of event ''Records'' \<noteq> None then Inr None
             else Inl (ValueError ''jobId not found in event detail''))
          else Inr (Some job_id))"

subsection \<open>The calls to S3, pypdfium2, PIL, os and EventBridge\<close>

definition log_call :: "call \<Rightarrow> world \<Rightarrow> world" where
  "log_call c w = w\<lparr>calls := calls w @ [c]\<rparr>"

text \<open>\<^verbatim>\<open>s3.download_file(bucket, key, filename)\<close>.\<close>

definition download_file :: "env \<Rightarrow> string \<Rightarrow> string \<Rightarrow> string \<Rightarrow> world \<Rightarrow> exn option \<times> world" where
  "download_file E bucket key filename w =
     (let w1 = log_call (DownloadFile bucket key filename) w in
      case download_fault E bucket key of
        Some e \<Rightarrow> (Some e, w1)
      | None \<Rightarrow>
          (case s3_objects w (bucket, key) of
             None \<Rightarrow> (Some (ClientError ''404''), w1)
           | Some data \<Rightarrow> (None, w1\<lparr>tmp_files := (tmp_files w1)(filename \<mapsto> data)\<rparr>)))"

text \<open>
  \<^verbatim>\<open>pdfium.PdfDocument(path)\<close>.  \<open>open_pdf E\<close> is what pdfium itself finds in the file:
  an error, or the pages.  The constructor of pypdfium2 takes a page count below one as a
  failed load and raises \<open>PdfiumError\<close>, also when pdfium accepted the file and reports
  no error; so a document without pages is never returned to the handler.
\<close>

definition load_failed :: exn where
  "load_failed = PdfiumError ''Failed to load document (PDFium: Success).''"

definition pdf_document :: "env \<Rightarrow> string \<Rightarrow> world \<Rightarrow> (exn + pdf) \<times> world" where
  "pdf_document E path w =
     (let w1 = log_call (PdfDocument path) w in
      case tmp_files w path of
        None \<Rightarrow> (Inl (FileNotFoundError path), w1)
      | Some data \<Rightarrow>
          (case open_pdf E data of
             Inl e \<Rightarrow> (Inl e, w1)
           | Inr doc \<Rightarrow> if length doc < 1 then (Inl load_failed, w1) else (Inr doc, w1)))"

text \<open>\<^verbatim>\<open>pdf[i].render(scale=s).to_pil()\<close>, for an index in range.\<close>

definition render :: "env \<Rightarrow> pdf \<Rightarrow> nat \<Rightarrow> nat \<Rightarrow> world \<Rightarrow> (exn + blob) \<times> world" where
  "render E doc i s w = (render_page E (doc ! i) s, log_call (Render i s) w)"

text \<open>\<^verbatim>\<open>img.save(path)\<close>.\<close>

definition img_save :: "env \<Rightarrow> blob \<Rightarrow> string \<Rightarrow> world \<Rightarrow> exn option \<times> world" where
  "img_save E img path w =
     (let w1 = log_call (ImgSave path) w in
      case save_fault E path of
        Some e \<Rightarrow> (Some e, w1)
      | None \<Rightarrow> (None, w1\<lparr>tmp_files := (tmp_files w1)(path \<mapsto> img)\<rparr>))"

text \<open>\<^verbatim>\<open>s3.upload_file(filename, bucket, key)\<close>.\<close>

definition upload_file :: "env \<Rightarrow> string \<Rightarrow> string \<Rightarrow> string \<Rightarrow> world \<Rightarrow> exn option \<times> world" where
  "upload_file E filename bucket key w =
     (let w1 = log_call (UploadFile filename bucket key) w in
      case tmp_files w filename of
        None \<Rightarrow> (Some (FileNotFoundError filename), w1)
      | Some data \<Rightarrow>
          (case upload_fault E bucket key of
             Some e \<Rightarrow> (Some e, w1)
           | None \<Rightarrow> (None, w1\<lparr>s3_objects := (s3_objects w1)((bucket, key) \<mapsto> data)\<rparr>)))"

text \<open>\<^verbatim>\<open>if os.path.exists(path): os.remove(path)\<close>; removing a scratch file that exists
  is taken to succeed.\<close>

definition remove_if_exists :: "string \<Rightarrow> world \<Rightarrow> world" where
  "remove_if_exists path w =
     (if tmp_files w path \<noteq> None
      then (log_call (OsRemove path) w)\<lparr>tmp_files := (tmp_files w)(path := None)\<rparr>
      else w)"

text \<open>\<^verbatim>\<open>events_client.put_events(Entries=[e])\<close>.\<close>

definition put_events :: "env \<Rightarrow> entry \<Rightarrow> world \<Rightarrow> exn option \<times> world" where
  "put_events E e w =
     (let w1 = log_call (PutEvents e) w in
      case put_events_fault E e of
        Some x \<Rightarrow> (Some x, w1)
      | None \<Rightarrow> (None, w1\<lparr>published := published w1 @ [e]\<rparr>))"

subsection \<open>The page loop (lines 62-79)\<close>

definition output_prefix :: "env \<Rightarrow> json \<Rightarrow> string" where
  "output_prefix E job_id = py_str E job_id @ ''_pages''"

definition local_img :: "env \<Rightarrow> json \<Rightarrow> nat \<Rightarrow> string" where
  "local_img E job_id i = ''/tmp/'' @ py_str E job_id @ ''_page_'' @ show_nat (i + 1) @ ''.png''"

definition output_key :: "env \<Rightarrow> json \<Rightarrow> nat \<Rightarrow> string" where
  "output_key E job_id i = output_prefix E job_id @ ''/page_'' @ show_nat (i + 1) @ ''.png''"

text \<open>One pass of the loop body, for page index \<open>i\<close>: the new \<open>output_keys\<close>, or the
  exception that leaves the loop.\<close>

definition page_step ::
  "env \<Rightarrow> string \<Rightarrow> json \<Rightarrow> pdf \<Rightarrow> nat \<Rightarrow> string list \<Rightarrow> world \<Rightarrow> (exn + string list) \<times> world" where
  "page_step E pdf_bucket job_id doc i output_keys w =
     (case render E doc i 2 w of
        (Inl e, w1) \<Rightarrow> (Inl e, w1)
      | (Inr img, w1) \<Rightarrow>
          (case img_save E img (local_img E job_id i) w1 of
             (Some e, w2) \<Rightarrow> (Inl e, w2)
           | (None, w2) \<Rightarrow>
               (case upload_file E (local_img E job_id i) pdf_bucket (output_key E job_id i) w2 of
                  (Some e, w3) \<Rightarrow> (Inl e, w3)
                | (None, w3) \<Rightarrow>
                    (Inr (output_keys @ [output_key E job_id i]),
                     remove_if_exists (local_img E job_id i) w3))))"

text \<open>\<^verbatim>\<open>for i in range(page_count)\<close>, over the indices still to do.\<close>

fun page_loop ::
  "env \<Rightarrow> string \<Rightarrow> json \<Rightarrow> pdf \<Rightarrow> nat list \<Rightarrow> string list \<Rightarrow> world \<Rightarrow> (exn + string list) \<times> world" where
  "page_loop E pdf_bucket job_id doc [] output_keys w = (Inr output_keys, w)"
| "page_loop E pdf_bucket job_id doc (i # is) output_keys w =
     (case page_step E pdf_bucket job_id doc i output_keys w of
        (Inl e, w1) \<Rightarrow> (Inl e, w1)
      | (Inr output_keys1, w1) \<Rightarrow> page_loop E pdf_bucket job_id doc is output_keys1 w1)"

subsection \<open>The handler\<close>

definition input_key :: "env \<Rightarrow> json \<Rightarrow> string" where
  "input_key E job_id = py_str E job_id @ ''/original.pdf''"

definition local_pdf :: "env \<Rightarrow> json \<Rightarrow> string" where
  "local_pdf E job_id = ''/tmp/'' @ py_str E job_id @ ''_original.pdf''"

definition event_detail :: "env \<Rightarrow> json \<Rightarrow> nat \<Rightarrow> json" where
  "event_detail E job_id page_count =
     JObj [(''jobId'', job_id),
           (''pageCount'', JInt (int page_count)),
           (''imagePrefix'', JStr (output_prefix E job_id))]"

definition images_generated :: "env \<Rightarrow> json \<Rightarrow> nat \<Rightarrow> string \<Rightarrow> entry" where
  "images_generated E job_id page_count event_bus_name =
     \<lparr>Source = ''pdf-lecture-service'',
      DetailType = ''ImagesGenerated'',
      Detail = event_detail E job_id page_count,
      EventBusName = event_bus_name\<rparr>"

definition success :: "json \<Rightarrow> nat \<Rightarrow> json" where
  "success job_id page_count =
     JObj [(''jobId'', job_id), (''pages'', JInt (int page_count)), (''status'', JStr ''success'')]"

text \<open>\<^verbatim>\<open>os.environ.get(name)\<close> followed by the truth test: the value when it is set and
  not empty.\<close>

definition setting :: "env \<Rightarrow> string \<Rightarrow> string option" where
  "setting E name =
     (case environ E name of None \<Rightarrow> None | Some v \<Rightarrow> if v = [] then None else Some v)"

text \<open>Lines 83-103.\<close>

definition notify :: "env \<Rightarrow> json \<Rightarrow> nat \<Rightarrow> world \<Rightarrow> exn option \<times> world" where
  "notify E job_id page_count w =
     (case setting E ''EVENT_BUS_NAME'' of
        Some event_bus_name \<Rightarrow> put_events E (images_generated E job_id page_count event_bus_name) w
      | None \<Rightarrow> (None, w))"

text \<open>Lines 33-113, for the job identifier found by the decoder.\<close>

definition run_job :: "env \<Rightarrow> json \<Rightarrow> world \<Rightarrow> (exn + json) \<times> world" where
  "run_job E job_id w =
     (case setting E ''S3_BUCKET_PDFS'' of
        None \<Rightarrow> (Inl (ValueError ''S3_BUCKET_PDFS environment variable not set''), w)
      | Some pdf_bucket \<Rightarrow>
          (case download_file E pdf_bucket (input_key E job_id) (local_pdf E job_id) w of
             (Some e, w1) \<Rightarrow> (Inl e, w1)
           | (None, w1) \<Rightarrow>
               (case pdf_document E (local_pdf E job_id) w1 of
                  (Inl e, w2) \<Rightarrow> (Inl e, w2)
                | (Inr doc, w2) \<Rightarrow>
                    (case page_loop E pdf_bucket job_id doc [0..<length doc] [] w2 of
                       (Inl e, w3) \<Rightarrow> (Inl e, w3)
                     | (Inr output_keys, w3) \<Rightarrow>
                         (case notify E job_id (length doc) w3 of
                            (Some e, w4) \<Rightarrow> (Inl e, w4)
                          | (None, w4) \<Rightarrow>
                              (Inr (success job_id (length doc)),
                               remove_if_exists (local_pdf E job_id) w4))))))"

text \<open>The handler.  The bare \<^verbatim>\<open>return\<close> of line 28 returns Python's \<open>None\<close>; the
  \<^verbatim>\<open>except\<close> clause of lines 115-117 logs and raises the exception again.\<close>

definition handler :: "env \<Rightarrow> (string \<times> json) list \<Rightarrow> world \<Rightarrow> (exn + json) \<times> world" where
  "handler E event w =
     (case decode_trigger event of
        Inl e \<Rightarrow> (Inl e, w)
      | Inr None \<Rightarrow> (Inr JNull, w)
      | Inr (Some job_id) \<Rightarrow> run_job E job_id w)"

section \<open>Vocabulary for the properties\<close>

text \<open>What a run did is read from the call log: the objects it asked S3 to store, in
  order, and the entries it asked EventBridge to publish.\<close>

definition uploads :: "call list \<Rightarrow> (string \<times> string) list" where
  "uploads cs = concat (map (\<lambda>c. case c of UploadFile f b k \<Rightarrow> [(b, k)] | _ \<Rightarrow> []) cs)"

definition put_requests :: "call list \<Rightarrow> entry list" where
  "put_requests cs = concat (map (\<lambda>c. case c of PutEvents e \<Rightarrow> [e] | _ \<Rightarrow> []) cs)"

definition page_image :: "env \<Rightarrow> pdf \<Rightarrow> nat \<Rightarrow> blob" where
  "page_image E doc i = (case render_page E (doc ! i) 2 of Inl _ \<Rightarrow> [] | Inr img \<Rightarrow> img)"

definition page_ok :: "env \<Rightarrow> string \<Rightarrow> json \<Rightarrow> pdf \<Rightarrow> nat \<Rightarrow> bool" where
  "page_ok E pdf_bucket job_id doc i =
     (case render_page E (doc ! i) 2 of
        Inl _ \<Rightarrow> False
      | Inr _ \<Rightarrow>
          save_fault E (local_img E job_id i) = None \<and>
          upload_fault E pdf_bucket (output_key E job_id i) = None)"

definition page_calls :: "env \<Rightarrow> string \<Rightarrow> json \<Rightarrow> nat \<Rightarrow> call list" where
  "page_calls E pdf_bucket job_id i =
     [Render i 2, ImgSave (local_img E job_id i),
      UploadFile (local_img E job_id i) pdf_bucket (output_key E job_id i),
      OsRemove (local_img E job_id i)]"

definition page_done :: "env \<Rightarrow> string \<Rightarrow> json \<Rightarrow> pdf \<Rightarrow> nat \<Rightarrow> world \<Rightarrow> world" where
  "page_done E pdf_bucket job_id doc i w =
     w\<lparr>s3_objects := (s3_objects w)((pdf_bucket, output_key E job_id i) \<mapsto> page_image E doc i),
       tmp_files := (tmp_files w)(local_img E job_id i := None),
       calls := calls w @ page_calls E pdf_bucket job_id i\<rparr>"

text \<open>\<open>page_stuck\<close> is the world after a pass of the loop body whose upload raised;
  \<open>new_calls w w'\<close> are the calls logged between \<open>w\<close> and \<open>w'\<close>.\<close>

definition page_stuck :: "env \<Rightarrow> string \<Rightarrow> json \<Rightarrow> nat \<Rightarrow> blob \<Rightarrow> world \<Rightarrow> world" where
  "page_stuck E pdf_bucket job_id i img w =
     w\<lparr>tmp_files := (tmp_files w)(local_img E job_id i \<mapsto> img),
       calls := calls w @
         [Render i 2, ImgSave (local_img E job_id i),
          UploadFile (local_img E job_id i) pdf_bucket (output_key E job_id i)]\<rparr>"

definition new_calls :: "world \<Rightarrow> world \<Rightarrow> call list" where
  "new_calls w w' = drop (length (calls w)) (calls w')"

text \<open>
  \<open>source_opens\<close>: the bucket is configured, the source of the job is in it, the download
  does not fault and pypdfium2 opens what was downloaded as \<open>doc\<close>, which it does only
  for a document with at least one page.  \<open>fetched\<close> is the
  world after these two calls, \<open>completion\<close> the entries the run asks EventBridge to
  publish, \<open>notify_ok\<close> says that EventBridge accepts them, and \<open>job_done\<close> is the world
  after a run in which every call succeeded.
\<close>

definition source_opens :: "env \<Rightarrow> json \<Rightarrow> world \<Rightarrow> string \<Rightarrow> blob \<Rightarrow> pdf \<Rightarrow> bool" where
  "source_opens E job_id w pdf_bucket data doc =
     (setting E ''S3_BUCKET_PDFS'' = Some pdf_bucket \<and>
      download_fault E pdf_bucket (input_key E job_id) = None \<and>
      s3_objects w (pdf_bucket, input_key E job_id) = Some data \<and>
      open_pdf E data = Inr doc \<and> doc \<noteq> [])"

definition fetched :: "env \<Rightarrow> json \<Rightarrow> string \<Rightarrow> blob \<Rightarrow> world \<Rightarrow> world" where
  "fetched E job_id pdf_bucket data w =
     w\<lparr>tmp_files := (tmp_files w)(local_pdf E job_id \<mapsto> data),
       calls := calls w @ [DownloadFile pdf_bucket (input_key E job_id) (local_pdf E job_id),
                           PdfDocument (local_pdf E job_id)]\<rparr>"

definition completion :: "env \<Rightarrow> json \<Rightarrow> nat \<Rightarrow> entry list" where
  "completion E job_id page_count =
     (case setting E ''EVENT_BUS_NAME'' of
        None \<Rightarrow> []
      | Some event_bus_name \<Rightarrow> [images_generated E job_id page_count event_bus_name])"

definition notify_ok :: "env \<Rightarrow> json \<Rightarrow> nat \<Rightarrow> bool" where
  "notify_ok E job_id page_count =
     (case setting E ''EVENT_BUS_NAME'' of
        None \<Rightarrow> True
      | Some event_bus_name \<Rightarrow>
          put_events_fault E (images_generated E job_id page_count event_bus_name) = None)"

definition job_done :: "env \<Rightarrow> json \<Rightarrow> string \<Rightarrow> blob \<Rightarrow> pdf \<Rightarrow> world \<Rightarrow> world" where
  "job_done E job_id pdf_bucket data doc w =
     remove_if_exists (local_pdf E job_id)
       (snd (notify E job_id (length doc)
          (fold (page_done E pdf_bucket job_id doc) [0..<length doc]
             (fetched E job_id pdf_bucket data w))))"

subsection \<open>A concrete run\<close>

text \<open>The scenario of the specification: bucket \<open>docs\<close>, event bus \<open>bus1\<close>, no faults, a
  source whose every byte is one page, and a renderer that puts the scale in front of the
  page.  The bucket holds a three-page source for job \<open>abc123\<close> and a one-page source
  for job \<open>42\<close>, and a source without pages for job \<open>empty\<close>.\<close>

definition demo_env :: env where
  "demo_env =
     \<lparr>environ = [''S3_BUCKET_PDFS'' \<mapsto> ''docs'', ''EVENT_BUS_NAME'' \<mapsto> ''bus1''],
      download_fault = (\<lambda>_ _. None),
      open_pdf = (\<lambda>data. Inr (map (\<lambda>b. [b]) data)),
      render_page = (\<lambda>p s. Inr (s # p)),
      save_fault = (\<lambda>_. None),
      upload_fault = (\<lambda>_ _. None),
      put_events_fault = (\<lambda>_. None),
      py_repr = (\<lambda>_. [])\<rparr>"

definition demo_world :: world where
  "demo_world =
     \<lparr>s3_objects =
        [(''docs'', ''abc123/original.pdf'') \<mapsto> [7, 8, 9],
         (''docs'', ''42/original.pdf'') \<mapsto> [5],
         (''docs'', ''empty/original.pdf'') \<mapsto> []],
      tmp_files = Map.empty,
      published = [],
      calls = []\<rparr>"

definition demo_event :: "(string \<times> json) list" where
  "demo_event = [(''detail'', JObj [(''jobId'', JStr ''abc123'')])]"

definition numeric_event :: "(string \<times> json) list" where
  "numeric_event = [(''detail'', JObj [(''jobId'', JInt 42)])]"

definition records_event :: "(string \<times> json) list" where
  "records_event = [(''Records'', JArr [JObj [(''eventSource'', JStr ''aws:s3'')]])]"

definition mixed_event :: "(string \<times> json) list" where
  "mixed_event = [(''Records'', JArr []), (''detail'', JObj [(''jobId'', JStr ''abc123'')])]"

definition unset_env :: env where
  "unset_env = demo_env\<lparr>environ := Map.empty\<rparr>"

text \<open>The same surroundings, but S3 refuses the upload of the second page.\<close>

definition faulty_env :: env where
  "faulty_env =
     demo_env\<lparr>upload_fault :=
       (\<lambda>bucket key. if key = ''abc123_pages/page_2.png'' then Some (ClientError ''500'') else None)\<rparr>"

definition quiet_env :: env where
  "quiet_env = demo_env\<lparr>environ := [''S3_BUCKET_PDFS'' \<mapsto> ''docs'']\<rparr>"

definition empty_event :: "(string \<times> json) list" where
  "empty_event = [(''detail'', JObj [(''jobId'', JStr ''empty'')])]"

definition null_detail_event :: "(string \<times> json) list" where
  "null_detail_event = [(''detail'', JNull), (''Records'', JArr [])]"

section \<open>The page loop\<close>

lemma uploads_append: "uploads (xs @ ys) = uploads xs @ uploads ys"
  by (simp add: uploads_def)

lemma put_requests_append: "put_requests (xs @ ys) = put_requests xs @ put_requests ys"
  by (simp add: put_requests_def)

lemma page_step_ok:
  assumes "page_ok E b job doc i"
  shows "page_step E b job doc i ks w = (Inr (ks @ [output_key E job i]), page_done E b job doc i w)"
  using assms
  by (simp add: page_ok_def page_step_def render_def img_save_def upload_file_def
      remove_if_exists_def log_call_def page_done_def page_calls_def page_image_def
      split: sum.splits)

lemma page_step_Inr:
  assumes "fst (page_step E b job doc i ks w) = Inr ks'"
  shows "page_ok E b job doc i"
  using assms
  by (auto simp add: page_ok_def page_step_def render_def img_save_def upload_file_def
      log_call_def Let_def split: sum.splits option.splits)

lemma page_loop_ok:
  "\<forall>i\<in>set is. page_ok E b job doc i \<Longrightarrow>
   page_loop E b job doc is ks w =
     (Inr (ks @ map (output_key E job) is), fold (page_done E b job doc) is w)"
  by (induction "is" arbitrary: ks w) (simp_all add: page_step_ok)

lemma page_loop_Inr:
  "fst (page_loop E b job doc is ks w) = Inr ks' \<Longrightarrow> \<forall>i\<in>set is. page_ok E b job doc i"
proof (induction "is" arbitrary: ks w)
  case Nil
  then show ?case by simp
next
  case (Cons i "is")
  obtain r w1 where step: "page_step E b job doc i ks w = (r, w1)"
    by (cases "page_step E b job doc i ks w")
  show ?case
  proof (cases r)
    case (Inl e)
    with Cons.prems step show ?thesis by simp
  next
    case (Inr ks1)
    with step have "page_ok E b job doc i"
      using page_step_Inr [of E b job doc i ks w ks1] by simp
    moreover from Cons.prems step Inr
    have "fst (page_loop E b job doc is ks1 w1) = Inr ks'" by simp
    ultimately show ?thesis using Cons.IH by simp
  qed
qed

lemma page_loop_append:
  "page_loop E b job doc (xs @ ys) ks w =
     (case page_loop E b job doc xs ks w of
        (Inl e, w1) \<Rightarrow> (Inl e, w1)
      | (Inr ks1, w1) \<Rightarrow> page_loop E b job doc ys ks1 w1)"
  by (induction xs arbitrary: ks w) (simp_all split: prod.splits sum.splits)

subsection \<open>What each call leaves alone\<close>

lemma remove_if_exists_fields:
  "s3_objects (remove_if_exists p w) = s3_objects w"
  "published (remove_if_exists p w) = published w"
  "uploads (calls (remove_if_exists p w)) = uploads (calls w)"
  "put_requests (calls (remove_if_exists p w)) = put_requests (calls w)"
  "tmp_files (remove_if_exists p w) = (tmp_files w)(p := None)"
  by (auto simp add: remove_if_exists_def log_call_def uploads_def put_requests_def)

lemma notify_fields:
  "s3_objects (snd (notify E job n w)) = s3_objects w"
  "tmp_files (snd (notify E job n w)) = tmp_files w"
  "uploads (calls (snd (notify E job n w))) = uploads (calls w)"
  "put_requests (calls (snd (notify E job n w))) = put_requests (calls w) @ completion E job n"
  by (simp_all add: notify_def put_events_def log_call_def uploads_def put_requests_def
      completion_def Let_def split: option.splits)

lemma notify_ok_published:
  "notify_ok E job n \<Longrightarrow> fst (notify E job n w) = None"
  "notify_ok E job n \<Longrightarrow> published (snd (notify E job n w)) = published w @ completion E job n"
  by (auto simp add: notify_ok_def notify_def put_events_def log_call_def completion_def Let_def
      split: option.splits)

lemma notify_None_ok: "fst (notify E job n w) = None \<Longrightarrow> notify_ok E job n"
  by (simp add: notify_ok_def notify_def put_events_def Let_def split: option.splits)

lemma fetched_fields:
  "s3_objects (fetched E job b data w) = s3_objects w"
  "published (fetched E job b data w) = published w"
  "tmp_files (fetched E job b data w) = (tmp_files w)(local_pdf E job \<mapsto> data)"
  "uploads (calls (fetched E job b data w)) = uploads (calls w)"
  "put_requests (calls (fetched E job b data w)) = put_requests (calls w)"
  by (simp_all add: fetched_def uploads_def put_requests_def)

lemma pages_done_fields:
  "s3_objects (fold (page_done E b job doc) is w) =
     fold (\<lambda>i m. m((b, output_key E job i) \<mapsto> page_image E doc i)) is (s3_objects w)"
  "tmp_files (fold (page_done E b job doc) is w) =
     fold (\<lambda>i m. m(local_img E job i := None)) is (tmp_files w)"
  "published (fold (page_done E b job doc) is w) = published w"
  "uploads (calls (fold (page_done E b job doc) is w)) =
     uploads (calls w) @ map (\<lambda>i. (b, output_key E job i)) is"
  "put_requests (calls (fold (page_done E b job doc) is w)) = put_requests (calls w)"
  by (induction "is" arbitrary: w)
     (simp_all add: page_done_def page_calls_def uploads_def put_requests_def)

subsection \<open>The run of a job whose source opens\<close>

lemma run_job_opened:
  assumes "source_opens E job w b data doc"
  shows "run_job E job w =
     (case page_loop E b job doc [0..<length doc] [] (fetched E job b data w) of
        (Inl e, w3) \<Rightarrow> (Inl e, w3)
      | (Inr ks, w3) \<Rightarrow>
          (case notify E job (length doc) w3 of
             (Some e, w4) \<Rightarrow> (Inl e, w4)
           | (None, w4) \<Rightarrow>
               (Inr (success job (length doc)), remove_if_exists (local_pdf E job) w4)))"
  using assms
  by (simp add: source_opens_def run_job_def download_file_def pdf_document_def log_call_def
      fetched_def Let_def)

lemma run_job_success:
  assumes "source_opens E job w b data doc"
    and "\<forall>i<length doc. page_ok E b job doc i"
    and "notify_ok E job (length doc)"
  shows "run_job E job w = (Inr (success job (length doc)), job_done E job b data doc w)"
proof -
  have loop: "page_loop E b job doc [0..<length doc] [] (fetched E job b data w) =
      (Inr (map (output_key E job) [0..<length doc]),
       fold (page_done E b job doc) [0..<length doc] (fetched E job b data w))"
    using assms(2) page_loop_ok [of "[0..<length doc]" E b job doc "[]"] by simp
  obtain x w4 where n: "notify E job (length doc)
      (fold (page_done E b job doc) [0..<length doc] (fetched E job b data w)) = (x, w4)"
    by (cases "notify E job (length doc)
      (fold (page_done E b job doc) [0..<length doc] (fetched E job b data w))")
  with assms(3) have "x = None"
    using notify_ok_published(1) [of E job "length doc"
        "fold (page_done E b job doc) [0..<length doc] (fetched E job b data w)"] by simp
  with n show ?thesis
    by (simp add: run_job_opened [OF assms(1)] loop job_done_def)
qed

lemma run_job_Inr:
  assumes "source_opens E job w b data doc"
    and "fst (run_job E job w) = Inr r"
  shows "(\<forall>i<length doc. page_ok E b job doc i) \<and> notify_ok E job (length doc)"
proof -
  obtain x w3 where loop:
    "page_loop E b job doc [0..<length doc] [] (fetched E job b data w) = (x, w3)"
    by (cases "page_loop E b job doc [0..<length doc] [] (fetched E job b data w)")
  obtain y w4 where n: "notify E job (length doc) w3 = (y, w4)"
    by (cases "notify E job (length doc) w3")
  from assms(2) loop n obtain ks where x: "x = Inr ks" and y: "y = None"
    by (auto simp add: run_job_opened [OF assms(1)] split: sum.splits option.splits)
  from loop x have "\<forall>i\<in>set [0..<length doc]. page_ok E b job doc i"
    using page_loop_Inr [of E b job doc "[0..<length doc]" "[]" "fetched E job b data w" ks]
    by simp
  moreover from n y have "notify_ok E job (length doc)"
    using notify_None_ok [of E job "length doc" w3] by simp
  ultimately show ?thesis by simp
qed

lemma run_job_not_None: "fst (run_job E job w) \<noteq> Inr JNull"
  by (simp add: run_job_def success_def split: option.splits prod.splits sum.splits)

subsection \<open>Keys\<close>

lemma show_nat_nonempty: "show_nat n \<noteq> []"
  by (subst show_nat.simps) simp

lemma digit_char_inj: "a < 10 \<Longrightarrow> b < 10 \<Longrightarrow> digit_char a = digit_char b \<Longrightarrow> a = b"
  unfolding digit_char_def by (subst (asm) nth_eq_iff_index_eq) simp_all

lemma show_nat_inj: "show_nat m = show_nat k \<Longrightarrow> m = k"
proof (induction m arbitrary: k rule: show_nat.induct)
  case (1 m)
  show ?case
  proof (cases "m < 10")
    case True
    show ?thesis
    proof (cases "k < 10")
      case k: True
      from "1.prems" True k have "digit_char m = digit_char k"
        by (simp add: show_nat.simps [of m] show_nat.simps [of k])
      with True k show ?thesis by (rule digit_char_inj)
    next
      case k: False
      from "1.prems" True k have "show_nat (k div 10) = []"
        by (simp add: show_nat.simps [of m] show_nat.simps [of k])
      then show ?thesis by (simp add: show_nat_nonempty)
    qed
  next
    case False
    show ?thesis
    proof (cases "k < 10")
      case k: True
      from "1.prems" False k have "show_nat (m div 10) = []"
        by (simp add: show_nat.simps [of m] show_nat.simps [of k])
      then show ?thesis by (simp add: show_nat_nonempty)
    next
      case k: False
      from "1.prems" False k
      have eq: "show_nat (m div 10) = show_nat (k div 10)"
        and d: "digit_char (m mod 10) = digit_char (k mod 10)"
        by (simp_all add: show_nat.simps [of m] show_nat.simps [of k])
      from "1.IH" [OF False eq] have "m div 10 = k div 10" .
      moreover from d have "m mod 10 = k mod 10"
        by (intro digit_char_inj) simp_all
      ultimately show ?thesis
        by (metis div_mult_mod_eq)
    qed
  qed
qed

lemma output_key_inj: "output_key E job i = output_key E job j \<Longrightarrow> i = j"
  by (auto simp add: output_key_def dest: show_nat_inj)

lemma input_key_not_output: "input_key E job \<noteq> output_key E job i"
proof
  assume "input_key E job = output_key E job i"
  then have "last (input_key E job) = last (output_key E job i)" by simp
  then show False by (simp add: input_key_def output_key_def)
qed

lemma fold_update_other:
  "x \<notin> k ` set xs \<Longrightarrow> fold (\<lambda>i m. m(k i \<mapsto> v i)) xs m x = m x"
  by (induction xs arbitrary: m) auto

lemma fold_update_lookup:
  "inj k \<Longrightarrow> i \<in> set xs \<Longrightarrow> fold (\<lambda>i m. m(k i \<mapsto> v i)) xs m (k i) = Some (v i)"
proof (induction xs rule: rev_induct)
  case Nil
  then show ?case by simp
next
  case (snoc y xs)
  show ?case
  proof (cases "i = y")
    case True
    then show ?thesis by simp
  next
    case False
    with snoc.prems have "k i \<noteq> k y" and "i \<in> set xs"
      by (auto dest: injD)
    with snoc.IH snoc.prems(1) show ?thesis by simp
  qed
qed

lemma inj_output_key: "inj (\<lambda>i. (b, output_key E job i))"
  by (rule injI) (simp add: output_key_inj)

lemma job_done_fields:
  "uploads (calls (job_done E job b data doc w)) =
     uploads (calls w) @ map (\<lambda>i. (b, output_key E job i)) [0..<length doc]"
  "put_requests (calls (job_done E job b data doc w)) =
     put_requests (calls w) @ completion E job (length doc)"
  "s3_objects (job_done E job b data doc w) =
     fold (\<lambda>i m. m((b, output_key E job i) \<mapsto> page_image E doc i)) [0..<length doc] (s3_objects w)"
  by (simp_all add: job_done_def remove_if_exists_fields notify_fields pages_done_fields
      fetched_fields)

lemma job_done_published:
  "notify_ok E job (length doc) \<Longrightarrow>
   published (job_done E job b data doc w) = published w @ completion E job (length doc)"
  by (simp add: job_done_def remove_if_exists_fields notify_ok_published pages_done_fields
      fetched_fields)

lemma job_done_stored:
  "i < length doc \<Longrightarrow>
   s3_objects (job_done E job b data doc w) (b, output_key E job i) = Some (page_image E doc i)"
  using fold_update_lookup [OF inj_output_key, of i "[0..<length doc]" b E job "page_image E doc" "s3_objects w"]
  by (simp add: job_done_fields)

lemma handler_decoded: "decode_trigger event = Inr (Some job) \<Longrightarrow> handler E event w = run_job E job w"
  by (simp add: handler_def)

subsection \<open>A pass whose upload raises\<close>

lemma page_step_upload_fails:
  assumes "render_page E (doc ! i) 2 = Inr img"
    and "save_fault E (local_img E job i) = None"
    and "upload_fault E b (output_key E job i) = Some e"
  shows "page_step E b job doc i ks w = (Inl e, page_stuck E b job i img w)"
  using assms
  by (simp add: page_step_def render_def img_save_def upload_file_def log_call_def
      page_stuck_def)

lemma page_step_calls:
  "OsRemove (local_img E job i) \<in> set (new_calls w (snd (page_step E b job doc i ks w))) =
     page_ok E b job doc i"
  by (auto simp add: new_calls_def page_ok_def page_step_def render_def img_save_def
      upload_file_def remove_if_exists_def log_call_def Let_def
      split: sum.splits option.splits)

lemma upt_split: "k < n \<Longrightarrow> [0..<n] = [0..<k] @ k # [Suc k..<n]"
  by (metis less_imp_le_nat upt_add_eq_append upt_conv_Cons le_add_diff_inverse plus_nat.add_0 zero_le)

lemma page_loop_stuck:
  assumes "k < length doc"
    and "\<forall>i<k. page_ok E b job doc i"
    and "render_page E (doc ! k) 2 = Inr img"
    and "save_fault E (local_img E job k) = None"
    and "upload_fault E b (output_key E job k) = Some e"
  shows "page_loop E b job doc [0..<length doc] [] w =
     (Inl e, page_stuck E b job k img (fold (page_done E b job doc) [0..<k] w))"
proof -
  have "page_loop E b job doc [0..<k] [] w =
      (Inr (map (output_key E job) [0..<k]), fold (page_done E b job doc) [0..<k] w)"
    using assms(2) page_loop_ok [of "[0..<k]" E b job doc "[]" w] by simp
  then show ?thesis
    by (simp add: upt_split [OF assms(1)] page_loop_append
        page_step_upload_fails [OF assms(3,4,5)])
qed

subsection \<open>Running a job again\<close>

lemma fold_update_idem:
  assumes "inj k"
  shows "fold (\<lambda>i m. m(k i \<mapsto> v i)) xs (fold (\<lambda>i m. m(k i \<mapsto> v i)) xs m) =
    fold (\<lambda>i m. m(k i \<mapsto> v i)) xs m"
proof (rule ext)
  fix x
  show "fold (\<lambda>i m. m(k i \<mapsto> v i)) xs (fold (\<lambda>i m. m(k i \<mapsto> v i)) xs m) x =
    fold (\<lambda>i m. m(k i \<mapsto> v i)) xs m x"
  proof (cases "x \<in> k ` set xs")
    case True
    then obtain i where i: "i \<in> set xs" and x: "x = k i" by auto
    show ?thesis
      unfolding x
      by (simp only: fold_update_lookup [OF assms i])
  next
    case False
    have "fold (\<lambda>i m. m(k i \<mapsto> v i)) xs (fold (\<lambda>i m. m(k i \<mapsto> v i)) xs m) x =
        fold (\<lambda>i m. m(k i \<mapsto> v i)) xs m x"
      using False by (rule fold_update_other)
    then show ?thesis .
  qed
qed

lemma page_ok_image: "page_ok E b job doc i \<Longrightarrow> render_page E (doc ! i) 2 = Inr (page_image E doc i)"
  by (simp add: page_ok_def page_image_def split: sum.splits)

lemma job_done_keeps_source:
  "s3_objects (job_done E job b data doc w) (b, input_key E job) = s3_objects w (b, input_key E job)"
proof -
  have "(b, input_key E job) \<notin> (\<lambda>i. (b, output_key E job i)) ` set [0..<length doc]"
    by (auto simp add: input_key_not_output)
  then have "fold (\<lambda>i m. m((b, output_key E job i) \<mapsto> page_image E doc i)) [0..<length doc]
      (s3_objects w) (b, input_key E job) = s3_objects w (b, input_key E job)"
    by (rule fold_update_other)
  then show ?thesis by (simp only: job_done_fields(3))
qed

subsection \<open>A source without pages\<close>

lemma run_job_no_pages:
  assumes "setting E ''S3_BUCKET_PDFS'' = Some b"
    and "download_fault E b (input_key E job) = None"
    and "s3_objects w (b, input_key E job) = Some data"
    and "open_pdf E data = Inr []"
  shows "run_job E job w = (Inl load_failed, fetched E job b data w)"
  using assms
  by (simp add: run_job_def download_file_def pdf_document_def log_call_def fetched_def Let_def)

subsection \<open>The call log only grows, and a run starts with the download\<close>

lemma page_step_grows: "\<exists>cs. calls (snd (page_step E b job doc i ks w)) = calls w @ cs"
  by (auto simp add: page_step_def render_def img_save_def upload_file_def remove_if_exists_def
      log_call_def Let_def split: sum.splits option.splits)

lemma page_loop_grows: "\<exists>cs. calls (snd (page_loop E b job doc is ks w)) = calls w @ cs"
proof (induction "is" arbitrary: ks w)
  case Nil
  then show ?case by simp
next
  case (Cons i "is")
  obtain r w1 where step: "page_step E b job doc i ks w = (r, w1)"
    by (cases "page_step E b job doc i ks w")
  obtain cs where cs: "calls w1 = calls w @ cs"
    using page_step_grows [of E b job doc i ks w] step by auto
  show ?case
  proof (cases r)
    case (Inl e)
    with step cs show ?thesis by simp
  next
    case (Inr ks1)
    obtain ds where "calls (snd (page_loop E b job doc is ks1 w1)) = calls w1 @ ds"
      using Cons.IH [of ks1 w1] by auto
    with step cs Inr show ?thesis by simp
  qed
qed

lemma notify_grows: "\<exists>cs. calls (snd (notify E job n w)) = calls w @ cs"
  by (simp add: notify_def put_events_def log_call_def Let_def split: option.splits)

lemma remove_if_exists_grows: "\<exists>cs. calls (remove_if_exists p w) = calls w @ cs"
  by (simp add: remove_if_exists_def log_call_def)

lemma run_job_first_call:
  assumes "setting E ''S3_BUCKET_PDFS'' = Some b"
  shows "\<exists>cs. calls (snd (run_job E job w)) =
    calls w @ DownloadFile b (input_key E job) (local_pdf E job) # cs"
proof -
  let ?d = "DownloadFile b (input_key E job) (local_pdf E job)"
  obtain x w1 where dl: "download_file E b (input_key E job) (local_pdf E job) w = (x, w1)"
    by (cases "download_file E b (input_key E job) (local_pdf E job) w")
  then have c1: "calls w1 = calls w @ [?d]"
    by (auto simp add: download_file_def log_call_def Let_def split: option.splits)
  obtain y w2 where op: "pdf_document E (local_pdf E job) w1 = (y, w2)"
    by (cases "pdf_document E (local_pdf E job) w1")
  then have c2: "calls w2 = calls w1 @ [PdfDocument (local_pdf E job)]"
    by (auto simp add: pdf_document_def log_call_def Let_def split: option.splits sum.splits if_splits)
  show ?thesis
  proof (cases x)
    case (Some e)
    with assms dl c1 show ?thesis by (simp add: run_job_def)
  next
    case None
    show ?thesis
    proof (cases y)
      case (Inl e)
      with assms dl op None c1 c2 show ?thesis by (simp add: run_job_def)
    next
      case (Inr doc)
      obtain z w3 where lp: "page_loop E b job doc [0..<length doc] [] w2 = (z, w3)"
        by (cases "page_loop E b job doc [0..<length doc] [] w2")
      obtain cs3 where c3: "calls w3 = calls w2 @ cs3"
        using page_loop_grows [of E b job doc "[0..<length doc]" "[]" w2] lp by auto
      show ?thesis
      proof (cases z)
        case (Inl e)
        with assms dl op None Inr lp c1 c2 c3 show ?thesis by (simp add: run_job_def)
      next
        case ks: (Inr output_keys)
        obtain n w4 where nt: "notify E job (length doc) w3 = (n, w4)"
          by (cases "notify E job (length doc) w3")
        obtain cs4 where c4: "calls w4 = calls w3 @ cs4"
          using notify_grows [of E job "length doc" w3] nt by auto
        obtain cs5 where c5: "calls (remove_if_exists (local_pdf E job) w4) = calls w4 @ cs5"
          using remove_if_exists_grows [of "local_pdf E job" w4] by auto
        show ?thesis
        proof (cases n)
          case (Some e)
          with assms dl op None Inr lp ks nt c1 c2 c3 c4 show ?thesis
            by (simp add: run_job_def)
        next
          case n: None
          with assms dl op None Inr lp ks nt c1 c2 c3 c4 c5 show ?thesis
            by (simp add: run_job_def)
        qed
      qed
    qed
  qed
qed

section \<open>Evaluation of concrete runs\<close>

lemmas run_defs =
  handler_def decode_trigger_def dict_get_def py_get_def run_job_def setting_def
  download_file_def log_call_def input_key_def local_pdf_def py_str_def pdf_document_def
  load_failed_def page_step_def render_def img_save_def upload_file_def remove_if_exists_def local_img_def
  output_key_def output_prefix_def notify_def put_events_def images_generated_def
  event_detail_def success_def show_int_def show_nat.simps digit_char_def upt_rec

lemmas demo_defs = demo_env_def demo_world_def demo_event_def numeric_event_def records_event_def
  mixed_event_def unset_env_def quiet_env_def empty_event_def faulty_env_def
  null_detail_event_def

section \<open>The trigger decoder\<close>

text \<open>
  C3, in the form that holds of the handler.  When the \<open>detail\<close> dict of the trigger holds a non-empty string under
  \<open>jobId\<close>, the decoder yields exactly that string, the handler runs the job for it, and
  the source key is that string followed by \<open>/original.pdf\<close>.  When \<open>detail\<close> is absent
  or a dict, the value under \<open>jobId\<close> is absent or false in Python's sense (\<open>None\<close>,
  \<open>False\<close>, \<open>0\<close>, an empty string, list or dict) and the event has no \<open>Records\<close> key,
  the handler raises \<open>ValueError\<close> "jobId not found in event detail" and leaves the
  world as it was.
\<close>

theorem decode_job_id_or_ValueError:
  "(map_of event ''detail'' = Some (JObj d) \<and> map_of d ''jobId'' = Some (JStr s) \<and> s \<noteq> []
      \<longrightarrow> decode_trigger event = Inr (Some (JStr s)) \<and> handler E event w = run_job E (JStr s) w
          \<and> input_key E (JStr s) = s @ ''/original.pdf'') \<and>
   (py_get (dict_get event ''detail'' (JObj [])) ''jobId'' = Inr j \<and> \<not> truthy j \<and>
    map_of event ''Records'' = None
      \<longrightarrow> handler E event w = (Inl (ValueError ''jobId not found in event detail''), w))"
  by (simp add: decode_trigger_def handler_def dict_get_def py_get_def input_key_def py_str_def)

theorem decode_job_id_or_ValueError_witness:
  "decode_trigger demo_event = Inr (Some (JStr ''abc123'')) \<and>
   input_key demo_env (JStr ''abc123'') = ''abc123/original.pdf'' \<and>
   handler demo_env [(''detail'', JObj [(''jobId'', JStr [])])] demo_world =
     (Inl (ValueError ''jobId not found in event detail''), demo_world)"
  using decode_job_id_or_ValueError [of demo_event "[(''jobId'', JStr ''abc123'')]" "''abc123''" demo_env demo_world "JStr []"]
    decode_job_id_or_ValueError [of "[(''detail'', JObj [(''jobId'', JStr [])])]" "[]" "[]" demo_env demo_world "JStr []"]
  by (simp add: demo_event_def dict_get_def py_get_def)

text \<open>
  C3 as stated fails: the payload \<^verbatim>\<open>{"detail": {"jobId": 42}}\<close> holds no \<open>jobId\<close> string
  and no \<open>Records\<close> key, yet line 22 tests only the truth value of \<open>job_id\<close>, so the
  handler takes \<open>42\<close> as the job identifier and returns the success record.
\<close>

theorem numeric_job_id_is_processed:
  "map_of numeric_event ''Records'' = None \<and>
   decode_trigger numeric_event = Inr (Some (JInt 42)) \<and>
   fst (handler demo_env numeric_event demo_world) = Inr (success (JInt 42) 1)"
  by (simp add: run_defs demo_defs)

text \<open>
  C8, in the form that holds of the handler.  When \<open>detail\<close> is absent or a dict that
  holds no true value under \<open>jobId\<close>, and the event has a top-level \<open>Records\<close> key, the
  handler returns at once (Python's \<open>None\<close>), raises nothing, and the world is unchanged:
  no call is logged, no file or object is written, nothing is published.
\<close>

theorem records_event_returns:
  "py_get (dict_get event ''detail'' (JObj [])) ''jobId'' = Inr j \<Longrightarrow> \<not> truthy j \<Longrightarrow>
   map_of event ''Records'' \<noteq> None \<Longrightarrow> handler E event w = (Inr JNull, w)"
  by (simp add: decode_trigger_def handler_def)

theorem records_event_returns_witness:
  "handler demo_env records_event demo_world = (Inr JNull, demo_world)"
  using records_event_returns [of records_event JNull demo_env demo_world]
  by (simp add: records_event_def dict_get_def py_get_def)

text \<open>
  C8 as stated fails: the payload \<^verbatim>\<open>{"detail": null, "Records": []}\<close> has no \<open>jobId\<close> in its
  \<open>detail\<close> and carries the \<open>Records\<close> key, yet \<^verbatim>\<open>detail.get\<close> of line 20 raises
  \<open>AttributeError\<close> before the \<open>Records\<close> test of line 24 is reached.
\<close>

theorem null_detail_raises_before_records_test:
  "map_of null_detail_event ''Records'' = Some (JArr []) \<and>
   handler demo_env null_detail_event demo_world =
     (Inl (AttributeError ''NoneType'' ''get''), demo_world)"
  by (simp add: handler_def decode_trigger_def dict_get_def py_get_def type_name_def
      null_detail_event_def)

text \<open>
  C10.  Let \<open>detail\<close> hold a true value under \<open>jobId\<close> (a non-empty string in
  particular); nothing is assumed about a \<open>Records\<close> key.  Then the decoder yields that
  value and the bare return of the \<open>Records\<close> branch is never the result.  The handler goes
  on to the job: without a bucket it raises the \<open>ValueError\<close> of line 37; with a bucket
  its first call is the download of \<^verbatim>\<open>{jobId}/original.pdf\<close>; and when the source opens and
  every page and the notification succeed, it uploads every page in order, publishes the
  completion entry and returns the success record.
\<close>

theorem job_id_precedes_records:
  assumes "py_get (dict_get event ''detail'' (JObj [])) ''jobId'' = Inr j"
    and "truthy j"
  shows "decode_trigger event = Inr (Some j) \<and>
         fst (handler E event w) \<noteq> Inr JNull \<and>
         (setting E ''S3_BUCKET_PDFS'' = None \<longrightarrow>
            handler E event w =
              (Inl (ValueError ''S3_BUCKET_PDFS environment variable not set''), w)) \<and>
         (\<forall>b. setting E ''S3_BUCKET_PDFS'' = Some b \<longrightarrow>
            take (Suc (length (calls w))) (calls (snd (handler E event w))) =
              calls w @ [DownloadFile b (input_key E j) (local_pdf E j)]) \<and>
         (\<forall>b data doc.
            source_opens E j w b data doc \<and> (\<forall>i<length doc. page_ok E b j doc i) \<and>
            notify_ok E j (length doc) \<longrightarrow>
            fst (handler E event w) = Inr (success j (length doc)) \<and>
            uploads (calls (snd (handler E event w))) =
              uploads (calls w) @ map (\<lambda>i. (b, output_key E j i)) [0..<length doc] \<and>
            put_requests (calls (snd (handler E event w))) =
              put_requests (calls w) @ completion E j (length doc) \<and>
            published (snd (handler E event w)) = published w @ completion E j (length doc))"
proof -
  have d: "decode_trigger event = Inr (Some j)"
    using assms by (simp add: decode_trigger_def)
  have h: "handler E event w = run_job E j w"
    using d by (rule handler_decoded)
  have n: "fst (handler E event w) \<noteq> Inr JNull"
    by (simp add: h run_job_not_None)
  have u: "setting E ''S3_BUCKET_PDFS'' = None \<longrightarrow>
      handler E event w = (Inl (ValueError ''S3_BUCKET_PDFS environment variable not set''), w)"
    by (simp add: h run_job_def)
  have f: "\<forall>b. setting E ''S3_BUCKET_PDFS'' = Some b \<longrightarrow>
      take (Suc (length (calls w))) (calls (snd (handler E event w))) =
        calls w @ [DownloadFile b (input_key E j) (local_pdf E j)]"
  proof (intro allI impI)
    fix b
    assume "setting E ''S3_BUCKET_PDFS'' = Some b"
    then obtain cs where "calls (snd (run_job E j w)) =
        calls w @ DownloadFile b (input_key E j) (local_pdf E j) # cs"
      using run_job_first_call [of E b j w] by auto
    then show "take (Suc (length (calls w))) (calls (snd (handler E event w))) =
        calls w @ [DownloadFile b (input_key E j) (local_pdf E j)]"
      by (simp add: h)
  qed
  have p: "\<forall>b data doc.
      source_opens E j w b data doc \<and> (\<forall>i<length doc. page_ok E b j doc i) \<and>
      notify_ok E j (length doc) \<longrightarrow>
      fst (handler E event w) = Inr (success j (length doc)) \<and>
      uploads (calls (snd (handler E event w))) =
        uploads (calls w) @ map (\<lambda>i. (b, output_key E j i)) [0..<length doc] \<and>
      put_requests (calls (snd (handler E event w))) =
        put_requests (calls w) @ completion E j (length doc) \<and>
      published (snd (handler E event w)) = published w @ completion E j (length doc)"
  proof (intro allI impI)
    fix b data doc
    assume a: "source_opens E j w b data doc \<and> (\<forall>i<length doc. page_ok E b j doc i) \<and>
      notify_ok E j (length doc)"
    then have "handler E event w = (Inr (success j (length doc)), job_done E j b data doc w)"
      using h run_job_success [of E j w b data doc] by simp
    then show "fst (handler E event w) = Inr (success j (length doc)) \<and>
      uploads (calls (snd (handler E event w))) =
        uploads (calls w) @ map (\<lambda>i. (b, output_key E j i)) [0..<length doc] \<and>
      put_requests (calls (snd (handler E event w))) =
        put_requests (calls w) @ completion E j (length doc) \<and>
      published (snd (handler E event w)) = published w @ completion E j (length doc)"
      using a by (simp add: job_done_fields(1,2) job_done_published)
  qed
  from d n u f p show ?thesis by blast
qed

theorem job_id_precedes_records_witness:
  "map_of mixed_event ''Records'' = Some (JArr []) \<and>
   decode_trigger mixed_event = Inr (Some (JStr ''abc123'')) \<and>
   take 1 (calls (snd (handler demo_env mixed_event demo_world))) =
     [DownloadFile ''docs'' ''abc123/original.pdf'' ''/tmp/abc123_original.pdf''] \<and>
   uploads (calls (snd (handler demo_env mixed_event demo_world))) =
     [(''docs'', ''abc123_pages/page_1.png''), (''docs'', ''abc123_pages/page_2.png''),
      (''docs'', ''abc123_pages/page_3.png'')] \<and>
   published (snd (handler demo_env mixed_event demo_world)) =
     [\<lparr>Source = ''pdf-lecture-service'', DetailType = ''ImagesGenerated'',
       Detail = JObj [(''jobId'', JStr ''abc123''), (''pageCount'', JInt 3),
                      (''imagePrefix'', JStr ''abc123_pages'')],
       EventBusName = ''bus1''\<rparr>] \<and>
   fst (handler demo_env mixed_event demo_world) =
     Inr (JObj [(''jobId'', JStr ''abc123''), (''pages'', JInt 3), (''status'', JStr ''success'')]) \<and>
   handler unset_env mixed_event demo_world =
     (Inl (ValueError ''S3_BUCKET_PDFS environment variable not set''), demo_world)"
  using job_id_precedes_records [of mixed_event "JStr ''abc123''" demo_env demo_world]
    job_id_precedes_records [of mixed_event "JStr ''abc123''" unset_env demo_world]
  by (simp add: run_defs demo_defs source_opens_def completion_def uploads_def)

section \<open>Configuration\<close>

text \<open>
  C6.  When \<open>S3_BUCKET_PDFS\<close> is unset or empty, the handler leaves the world as it was
  (no download, upload or publication is even attempted: the call log is unchanged), and
  for every event that names a job it raises \<open>ValueError\<close> "S3_BUCKET_PDFS environment
  variable not set".
\<close>

theorem missing_bucket_fails_first:
  "setting E ''S3_BUCKET_PDFS'' = None \<Longrightarrow>
   snd (handler E event w) = w \<and>
   (\<forall>job_id. decode_trigger event = Inr (Some job_id) \<longrightarrow>
      fst (handler E event w) = Inl (ValueError ''S3_BUCKET_PDFS environment variable not set''))"
  by (simp add: handler_def run_job_def split: sum.splits option.splits)

theorem missing_bucket_fails_first_witness:
  "setting unset_env ''S3_BUCKET_PDFS'' = None \<and>
   handler unset_env demo_event demo_world =
     (Inl (ValueError ''S3_BUCKET_PDFS environment variable not set''), demo_world)"
  using missing_bucket_fails_first [of unset_env demo_event demo_world]
  by (simp add: run_defs demo_defs)

section \<open>Successful runs\<close>

text \<open>
  C1.  Let the trigger name a job whose source opens as a document of \<open>N\<close> pages, and let
  the handler return.  Then the uploads of the run are exactly the \<open>N\<close> keys
  \<^verbatim>\<open>{jobId}_pages/page_1.png\<close> to \<^verbatim>\<open>{jobId}_pages/page_N.png\<close> in increasing page order,
  the keys are pairwise different, each holds the rendering of its page afterwards, the
  only entry the run publishes (when an event bus is configured) has \<open>pageCount\<close> \<open>N\<close>,
  and the value returned is the success record for \<open>N\<close> pages.
\<close>

theorem every_page_uploaded_once_in_order:
  assumes "decode_trigger event = Inr (Some job_id)"
    and "source_opens E job_id w pdf_bucket data doc"
    and "fst (handler E event w) = Inr r"
  shows "uploads (calls (snd (handler E event w))) =
           uploads (calls w) @
           map (\<lambda>i. (pdf_bucket, py_str E job_id @ ''_pages/page_'' @ show_nat (i + 1) @ ''.png''))
             [0..<length doc] \<and>
         distinct (map (output_key E job_id) [0..<length doc]) \<and>
         (\<forall>i<length doc.
            s3_objects (snd (handler E event w)) (pdf_bucket, output_key E job_id i) =
              Some (page_image E doc i)) \<and>
         put_requests (calls (snd (handler E event w))) =
           put_requests (calls w) @ completion E job_id (length doc) \<and>
         published (snd (handler E event w)) = published w @ completion E job_id (length doc) \<and>
         (\<forall>e\<in>set (completion E job_id (length doc)).
            py_get (Detail e) ''pageCount'' = Inr (JInt (int (length doc)))) \<and>
         r = success job_id (length doc)"
proof -
  have h: "handler E event w = run_job E job_id w"
    using assms(1) by (rule handler_decoded)
  from assms(2,3) h
  have ok: "\<forall>i<length doc. page_ok E pdf_bucket job_id doc i" and n: "notify_ok E job_id (length doc)"
    using run_job_Inr [of E job_id w pdf_bucket data doc r] by simp_all
  have run: "handler E event w =
      (Inr (success job_id (length doc)), job_done E job_id pdf_bucket data doc w)"
    using h run_job_success [OF assms(2) ok n] by simp
  have u: "uploads (calls (snd (handler E event w))) =
      uploads (calls w) @
      map (\<lambda>i. (pdf_bucket, py_str E job_id @ ''_pages/page_'' @ show_nat (i + 1) @ ''.png''))
        [0..<length doc]"
    by (simp add: run job_done_fields(1) output_key_def output_prefix_def)
  have d: "distinct (map (output_key E job_id) [0..<length doc])"
    by (simp add: distinct_map inj_on_def output_key_inj)
  have s: "\<forall>i<length doc.
      s3_objects (snd (handler E event w)) (pdf_bucket, output_key E job_id i) =
        Some (page_image E doc i)"
    by (simp add: run job_done_stored)
  have p: "put_requests (calls (snd (handler E event w))) =
      put_requests (calls w) @ completion E job_id (length doc)"
    by (simp add: run job_done_fields(2))
  have q: "published (snd (handler E event w)) = published w @ completion E job_id (length doc)"
    by (simp add: run job_done_published [OF n])
  have c: "\<forall>e\<in>set (completion E job_id (length doc)).
      py_get (Detail e) ''pageCount'' = Inr (JInt (int (length doc)))"
    by (auto simp add: completion_def images_generated_def event_detail_def py_get_def
        dict_get_def split: option.splits)
  from assms(3) run have r: "r = success job_id (length doc)" by simp
  from u d s p q c r show ?thesis by blast
qed

theorem every_page_uploaded_once_in_order_witness:
  "uploads (calls (snd (handler demo_env demo_event demo_world))) =
     [(''docs'', ''abc123_pages/page_1.png''), (''docs'', ''abc123_pages/page_2.png''),
      (''docs'', ''abc123_pages/page_3.png'')] \<and>
   published (snd (handler demo_env demo_event demo_world)) =
     [\<lparr>Source = ''pdf-lecture-service'', DetailType = ''ImagesGenerated'',
       Detail = JObj [(''jobId'', JStr ''abc123''), (''pageCount'', JInt 3),
                      (''imagePrefix'', JStr ''abc123_pages'')],
       EventBusName = ''bus1''\<rparr>] \<and>
   fst (handler demo_env demo_event demo_world) =
     Inr (JObj [(''jobId'', JStr ''abc123''), (''pages'', JInt 3), (''status'', JStr ''success'')])"
  using every_page_uploaded_once_in_order [of demo_event "JStr ''abc123''" demo_env demo_world
      "''docs''" "[7, 8, 9]" "[[7], [8], [9]]" "success (JStr ''abc123'') 3"]
  by (simp add: run_defs demo_defs source_opens_def completion_def uploads_def)

text \<open>
  C7.  When no event bus is configured (\<open>EVENT_BUS_NAME\<close> unset or empty) and every page
  of the source is rendered, saved and uploaded without fault, the handler returns
  \<^verbatim>\<open>{"jobId": jobId, "pages": N, "status": "success"}\<close>, publishes nothing and makes no
  request to EventBridge.
\<close>

theorem no_event_bus_still_succeeds:
  assumes "decode_trigger event = Inr (Some job_id)"
    and "source_opens E job_id w pdf_bucket data doc"
    and "\<forall>i<length doc. page_ok E pdf_bucket job_id doc i"
    and "setting E ''EVENT_BUS_NAME'' = None"
  shows "fst (handler E event w) =
           Inr (JObj [(''jobId'', job_id), (''pages'', JInt (int (length doc))),
                      (''status'', JStr ''success'')]) \<and>
         published (snd (handler E event w)) = published w \<and>
         put_requests (calls (snd (handler E event w))) = put_requests (calls w)"
proof -
  from assms(4) have n: "notify_ok E job_id (length doc)"
    and c: "completion E job_id (length doc) = []"
    by (simp_all add: notify_ok_def completion_def)
  have "handler E event w =
      (Inr (success job_id (length doc)), job_done E job_id pdf_bucket data doc w)"
    using handler_decoded [OF assms(1)] run_job_success [OF assms(2,3) n] by simp
  then show ?thesis
    using c by (simp add: success_def job_done_fields(2) job_done_published [OF n])
qed

theorem no_event_bus_still_succeeds_witness:
  "setting quiet_env ''EVENT_BUS_NAME'' = None \<and>
   fst (handler quiet_env demo_event demo_world) =
     Inr (JObj [(''jobId'', JStr ''abc123''), (''pages'', JInt 3), (''status'', JStr ''success'')]) \<and>
   published (snd (handler quiet_env demo_event demo_world)) = []"
  using no_event_bus_still_succeeds [of demo_event "JStr ''abc123''" quiet_env demo_world
      "''docs''" "[7, 8, 9]" "[[7], [8], [9]]"]
  by (simp add: decode_trigger_def dict_get_def py_get_def setting_def input_key_def py_str_def
      local_img_def output_key_def output_prefix_def
      demo_defs source_opens_def page_ok_def less_Suc_eq numeral_3_eq_3)

section \<open>A source without pages\<close>

text \<open>
  C4, in the form that holds of the handler.  Let the trigger name a job whose source
  downloads and in which pdfium finds no page.  Then \<^verbatim>\<open>pdfium.PdfDocument\<close> raises and
  the handler raises the same \<open>PdfiumError\<close>: it uploads nothing and leaves the bucket as
  it was, makes no request to EventBridge and publishes nothing, whether or not an event
  bus is configured, and returns no success record.
\<close>

theorem empty_document_is_refused:
  assumes "decode_trigger event = Inr (Some job_id)"
    and "setting E ''S3_BUCKET_PDFS'' = Some pdf_bucket"
    and "download_fault E pdf_bucket (input_key E job_id) = None"
    and "s3_objects w (pdf_bucket, input_key E job_id) = Some data"
    and "open_pdf E data = Inr []"
  shows "fst (handler E event w) = Inl load_failed \<and>
         uploads (calls (snd (handler E event w))) = uploads (calls w) \<and>
         s3_objects (snd (handler E event w)) = s3_objects w \<and>
         put_requests (calls (snd (handler E event w))) = put_requests (calls w) \<and>
         published (snd (handler E event w)) = published w"
proof -
  have "handler E event w = (Inl load_failed, fetched E job_id pdf_bucket data w)"
    using handler_decoded [OF assms(1)] run_job_no_pages [OF assms(2,3,4,5)] by simp
  then show ?thesis by (simp add: fetched_fields)
qed

theorem empty_document_is_refused_witness:
  "open_pdf demo_env [] = Inr [] \<and>
   fst (handler demo_env empty_event demo_world) =
     Inl (PdfiumError ''Failed to load document (PDFium: Success).'') \<and>
   uploads (calls (snd (handler demo_env empty_event demo_world))) = [] \<and>
   put_requests (calls (snd (handler demo_env empty_event demo_world))) = [] \<and>
   published (snd (handler demo_env empty_event demo_world)) = []"
  using empty_document_is_refused [of empty_event "JStr ''empty''" demo_env "''docs''" demo_world "[]"]
  by (simp add: decode_trigger_def dict_get_def py_get_def setting_def input_key_def py_str_def
      load_failed_def uploads_def put_requests_def demo_defs)

text \<open>
  C4 as stated fails: with bucket \<open>docs\<close> and event bus \<open>bus1\<close> configured and no fault
  anywhere, the run for the job \<open>empty\<close>, whose source has no page, ends with the
  \<open>PdfiumError\<close> of the constructor; no success record is returned and no completion entry
  is requested or published.
\<close>

theorem empty_document_raises:
  "setting demo_env ''EVENT_BUS_NAME'' = Some ''bus1'' \<and>
   handler demo_env empty_event demo_world =
     (Inl (PdfiumError ''Failed to load document (PDFium: Success).''),
      demo_world\<lparr>tmp_files := [''/tmp/empty_original.pdf'' \<mapsto> []],
        calls := [DownloadFile ''docs'' ''empty/original.pdf'' ''/tmp/empty_original.pdf'',
                  PdfDocument ''/tmp/empty_original.pdf'']\<rparr>)"
  by (simp add: run_defs demo_defs)

section \<open>Failing uploads\<close>

text \<open>
  C2.  Let the trigger name a job whose source opens, let the pages before index \<open>k\<close>
  (pages \<open>1\<close> to \<open>k\<close> in the numbering of the keys) be rendered, saved and uploaded
  without fault, and let the upload of the page with index \<open>k\<close> raise \<open>e\<close>.  Then the
  handler raises \<open>e\<close>; nothing is published and no request is made to EventBridge; the
  uploads attempted are those of the pages up to index \<open>k\<close>; the objects of the pages
  before \<open>k\<close> are in the bucket with their renderings (nothing is rolled back); and the
  key of page \<open>k\<close> holds what it held before.
\<close>

theorem upload_failure_prevents_completion:
  assumes "decode_trigger event = Inr (Some job_id)"
    and "source_opens E job_id w pdf_bucket data doc"
    and "k < length doc"
    and "\<forall>i<k. page_ok E pdf_bucket job_id doc i"
    and "render_page E (doc ! k) 2 = Inr img"
    and "save_fault E (local_img E job_id k) = None"
    and "upload_fault E pdf_bucket (output_key E job_id k) = Some e"
  shows "fst (handler E event w) = Inl e \<and>
         published (snd (handler E event w)) = published w \<and>
         put_requests (calls (snd (handler E event w))) = put_requests (calls w) \<and>
         uploads (calls (snd (handler E event w))) =
           uploads (calls w) @ map (\<lambda>i. (pdf_bucket, output_key E job_id i)) [0..<Suc k] \<and>
         (\<forall>i<k. s3_objects (snd (handler E event w)) (pdf_bucket, output_key E job_id i) =
            Some (page_image E doc i)) \<and>
         s3_objects (snd (handler E event w)) (pdf_bucket, output_key E job_id k) =
           s3_objects w (pdf_bucket, output_key E job_id k)"
proof -
  let ?w0 = "fetched E job_id pdf_bucket data w"
  let ?w3 = "page_stuck E pdf_bucket job_id k img (fold (page_done E pdf_bucket job_id doc) [0..<k] ?w0)"
  have h: "handler E event w = (Inl e, ?w3)"
    using handler_decoded [OF assms(1)] run_job_opened [OF assms(2)]
      page_loop_stuck [OF assms(3,4,5,6,7)] by simp
  have s: "s3_objects ?w3 =
      fold (\<lambda>i m. m((pdf_bucket, output_key E job_id i) \<mapsto> page_image E doc i)) [0..<k] (s3_objects w)"
    by (simp add: page_stuck_def pages_done_fields fetched_fields)
  have stored: "\<forall>i<k. s3_objects ?w3 (pdf_bucket, output_key E job_id i) = Some (page_image E doc i)"
    using fold_update_lookup [OF inj_output_key, of _ "[0..<k]" pdf_bucket E job_id
        "page_image E doc" "s3_objects w"]
    by (simp add: s)
  have "(pdf_bucket, output_key E job_id k) \<notin> (\<lambda>i. (pdf_bucket, output_key E job_id i)) ` set [0..<k]"
    by (auto dest: output_key_inj)
  then have "fold (\<lambda>i m. m((pdf_bucket, output_key E job_id i) \<mapsto> page_image E doc i)) [0..<k]
      (s3_objects w) (pdf_bucket, output_key E job_id k) =
      s3_objects w (pdf_bucket, output_key E job_id k)"
    by (rule fold_update_other)
  then have other: "s3_objects ?w3 (pdf_bucket, output_key E job_id k) =
      s3_objects w (pdf_bucket, output_key E job_id k)"
    by (simp only: s)
  have p: "published ?w3 = published w"
    by (simp add: page_stuck_def pages_done_fields fetched_fields)
  have q: "put_requests (calls ?w3) = put_requests (calls w)"
    using pages_done_fields(5) [of E pdf_bucket job_id doc "[0..<k]" ?w0]
    by (simp add: page_stuck_def put_requests_append fetched_fields) (simp add: put_requests_def)
  have u: "uploads (calls ?w3) =
      uploads (calls w) @ map (\<lambda>i. (pdf_bucket, output_key E job_id i)) [0..<Suc k]"
    using pages_done_fields(4) [of E pdf_bucket job_id doc "[0..<k]" ?w0]
    by (simp add: page_stuck_def uploads_append fetched_fields) (simp add: uploads_def)
  from stored other p q u show ?thesis
    by (simp only: h fst_conv snd_conv simp_thms)
qed

theorem upload_failure_prevents_completion_witness:
  "fst (handler faulty_env demo_event demo_world) = Inl (ClientError ''500'') \<and>
   published (snd (handler faulty_env demo_event demo_world)) = [] \<and>
   put_requests (calls (snd (handler faulty_env demo_event demo_world))) = [] \<and>
   uploads (calls (snd (handler faulty_env demo_event demo_world))) =
     [(''docs'', ''abc123_pages/page_1.png''), (''docs'', ''abc123_pages/page_2.png'')] \<and>
   s3_objects (snd (handler faulty_env demo_event demo_world)) (''docs'', ''abc123_pages/page_1.png'') =
     Some [2, 7] \<and>
   s3_objects (snd (handler faulty_env demo_event demo_world)) (''docs'', ''abc123_pages/page_2.png'') =
     None"
  using upload_failure_prevents_completion [of demo_event "JStr ''abc123''" faulty_env demo_world
      "''docs''" "[7, 8, 9]" "[[7], [8], [9]]" 1 "[2, 8]" "ClientError ''500''"]
  by (simp add: decode_trigger_def dict_get_def py_get_def setting_def input_key_def py_str_def
      local_img_def output_key_def output_prefix_def show_nat.simps digit_char_def
      demo_defs source_opens_def page_ok_def page_image_def uploads_def
      put_requests_def upt_rec)

text \<open>
  C5.  In a pass of the loop body for page \<open>i\<close>, \<^verbatim>\<open>os.remove\<close> is called on the scratch
  image exactly when the page was uploaded (\<open>page_ok\<close>: rendered, saved and uploaded
  without fault; the upload is only attempted after the other two).  After a successful
  upload the scratch image is gone.  When the upload raises \<open>e\<close>, the pass ends with \<open>e\<close>,
  the scratch image is still there, and the loop ends with the same exception and the
  same world, whatever pages remain.
\<close>

theorem scratch_image_removed_iff_uploaded:
  "(OsRemove (local_img E job_id i) \<in>
      set (new_calls w (snd (page_step E pdf_bucket job_id doc i output_keys w)))) =
     page_ok E pdf_bucket job_id doc i \<and>
   (page_ok E pdf_bucket job_id doc i \<longrightarrow>
      fst (page_step E pdf_bucket job_id doc i output_keys w) =
        Inr (output_keys @ [output_key E job_id i]) \<and>
      tmp_files (snd (page_step E pdf_bucket job_id doc i output_keys w)) (local_img E job_id i) =
        None) \<and>
   (\<forall>img e.
      render_page E (doc ! i) 2 = Inr img \<and> save_fault E (local_img E job_id i) = None \<and>
      upload_fault E pdf_bucket (output_key E job_id i) = Some e \<longrightarrow>
      fst (page_step E pdf_bucket job_id doc i output_keys w) = Inl e \<and>
      tmp_files (snd (page_step E pdf_bucket job_id doc i output_keys w)) (local_img E job_id i) =
        Some img \<and>
      page_loop E pdf_bucket job_id doc (i # rest) output_keys w =
        page_step E pdf_bucket job_id doc i output_keys w)"
proof (intro conjI allI impI)
  show "(OsRemove (local_img E job_id i) \<in>
      set (new_calls w (snd (page_step E pdf_bucket job_id doc i output_keys w)))) =
     page_ok E pdf_bucket job_id doc i"
    by (rule page_step_calls)
next
  assume "page_ok E pdf_bucket job_id doc i"
  then have "page_step E pdf_bucket job_id doc i output_keys w =
      (Inr (output_keys @ [output_key E job_id i]), page_done E pdf_bucket job_id doc i w)"
    by (rule page_step_ok)
  then show "fst (page_step E pdf_bucket job_id doc i output_keys w) =
        Inr (output_keys @ [output_key E job_id i])"
    and "tmp_files (snd (page_step E pdf_bucket job_id doc i output_keys w)) (local_img E job_id i) =
        None"
    by (simp_all add: page_done_def)
next
  fix img e
  assume "render_page E (doc ! i) 2 = Inr img \<and> save_fault E (local_img E job_id i) = None \<and>
      upload_fault E pdf_bucket (output_key E job_id i) = Some e"
  then have "page_step E pdf_bucket job_id doc i output_keys w =
      (Inl e, page_stuck E pdf_bucket job_id i img w)"
    by (simp add: page_step_upload_fails)
  then show "fst (page_step E pdf_bucket job_id doc i output_keys w) = Inl e"
    and "tmp_files (snd (page_step E pdf_bucket job_id doc i output_keys w)) (local_img E job_id i) =
        Some img"
    and "page_loop E pdf_bucket job_id doc (i # rest) output_keys w =
        page_step E pdf_bucket job_id doc i output_keys w"
    by (simp_all add: page_stuck_def)
qed

theorem scratch_image_removed_iff_uploaded_witness:
  "page_ok demo_env ''docs'' (JStr ''abc123'') [[7], [8], [9]] 0 \<and>
   tmp_files (snd (page_step demo_env ''docs'' (JStr ''abc123'') [[7], [8], [9]] 0 [] demo_world))
     ''/tmp/abc123_page_1.png'' = None \<and>
   OsRemove ''/tmp/abc123_page_1.png'' \<in>
     set (new_calls demo_world
       (snd (page_step demo_env ''docs'' (JStr ''abc123'') [[7], [8], [9]] 0 [] demo_world))) \<and>
   fst (page_step faulty_env ''docs'' (JStr ''abc123'') [[7], [8], [9]] 1 [] demo_world) =
     Inl (ClientError ''500'') \<and>
   tmp_files (snd (page_step faulty_env ''docs'' (JStr ''abc123'') [[7], [8], [9]] 1 [] demo_world))
     ''/tmp/abc123_page_2.png'' = Some [2, 8] \<and>
   OsRemove ''/tmp/abc123_page_2.png'' \<notin>
     set (new_calls demo_world
       (snd (page_step faulty_env ''docs'' (JStr ''abc123'') [[7], [8], [9]] 1 [] demo_world)))"
  using scratch_image_removed_iff_uploaded [of demo_env "JStr ''abc123''" 0 demo_world "''docs''"
      "[[7], [8], [9]]" "[]" "[]"]
    scratch_image_removed_iff_uploaded [of faulty_env "JStr ''abc123''" 1 demo_world "''docs''"
      "[[7], [8], [9]]" "[]" "[]"]
  by (simp add: py_str_def local_img_def output_key_def output_prefix_def show_nat.simps
      digit_char_def demo_defs page_ok_def)

section \<open>Running the same job twice\<close>

text \<open>
  C9.  Let the trigger name a job whose source opens as \<open>doc\<close>, and let the handler
  return.  Run on the world it leaves, with the same trigger and the same surroundings,
  the handler returns the same value; both runs upload to the same keys in the same
  order (the key of a page is computed from the job identifier and the page index only);
  the second run leaves every object of the bucket as the first run left it; and each
  key holds the rendering of its page at scale 2.
\<close>

theorem second_run_writes_same_objects:
  assumes "decode_trigger event = Inr (Some job_id)"
    and "source_opens E job_id w pdf_bucket data doc"
    and "fst (handler E event w) = Inr r"
  shows "fst (handler E event (snd (handler E event w))) = Inr r \<and>
         uploads (calls (snd (handler E event w))) =
           uploads (calls w) @
           map (\<lambda>i. (pdf_bucket, py_str E job_id @ ''_pages/page_'' @ show_nat (i + 1) @ ''.png''))
             [0..<length doc] \<and>
         uploads (calls (snd (handler E event (snd (handler E event w))))) =
           uploads (calls (snd (handler E event w))) @
           map (\<lambda>i. (pdf_bucket, py_str E job_id @ ''_pages/page_'' @ show_nat (i + 1) @ ''.png''))
             [0..<length doc] \<and>
         s3_objects (snd (handler E event (snd (handler E event w)))) =
           s3_objects (snd (handler E event w)) \<and>
         (\<forall>i<length doc.
            map_option Inr (s3_objects (snd (handler E event w)) (pdf_bucket, output_key E job_id i)) =
              Some (render_page E (doc ! i) 2))"
proof -
  let ?w1 = "job_done E job_id pdf_bucket data doc w"
  let ?w2 = "job_done E job_id pdf_bucket data doc ?w1"
  have h: "handler E event w = run_job E job_id w" for w
    using assms(1) by (rule handler_decoded)
  from assms(2,3) h
  have ok: "\<forall>i<length doc. page_ok E pdf_bucket job_id doc i" and n: "notify_ok E job_id (length doc)"
    using run_job_Inr [of E job_id w pdf_bucket data doc r] by simp_all
  have run1: "handler E event w = (Inr (success job_id (length doc)), ?w1)"
    using h run_job_success [OF assms(2) ok n] by simp
  from assms(3) run1 have r: "r = success job_id (length doc)" by simp
  have "source_opens E job_id ?w1 pdf_bucket data doc"
    using assms(2) by (simp add: source_opens_def job_done_keeps_source)
  then have run2: "handler E event ?w1 = (Inr (success job_id (length doc)), ?w2)"
    using h run_job_success [OF _ ok n] by simp
  have keys: "(\<lambda>i. (pdf_bucket, py_str E job_id @ ''_pages/page_'' @ show_nat (i + 1) @ ''.png'')) =
      (\<lambda>i. (pdf_bucket, output_key E job_id i))"
    by (simp add: output_key_def output_prefix_def)
  have u1: "uploads (calls ?w1) =
      uploads (calls w) @
      map (\<lambda>i. (pdf_bucket, py_str E job_id @ ''_pages/page_'' @ show_nat (i + 1) @ ''.png''))
        [0..<length doc]"
    by (simp only: keys job_done_fields(1))
  have u2: "uploads (calls ?w2) =
      uploads (calls ?w1) @
      map (\<lambda>i. (pdf_bucket, py_str E job_id @ ''_pages/page_'' @ show_nat (i + 1) @ ''.png''))
        [0..<length doc]"
    by (simp only: keys job_done_fields(1))
  have s: "s3_objects ?w2 = s3_objects ?w1"
    by (simp only: job_done_fields(3) fold_update_idem [OF inj_output_key])
  have c: "\<forall>i<length doc.
      map_option Inr (s3_objects ?w1 (pdf_bucket, output_key E job_id i)) =
        Some (render_page E (doc ! i) 2)"
  proof (intro allI impI)
    fix i
    assume i: "i < length doc"
    with ok have "page_ok E pdf_bucket job_id doc i" by simp
    then have "render_page E (doc ! i) 2 = Inr (page_image E doc i)"
      by (rule page_ok_image)
    then show "map_option Inr (s3_objects ?w1 (pdf_bucket, output_key E job_id i)) =
        Some (render_page E (doc ! i) 2)"
      by (simp add: job_done_stored [OF i])
  qed
  from r u1 u2 s c show ?thesis
    by (simp only: run1 run2 fst_conv snd_conv simp_thms)
qed

theorem second_run_writes_same_objects_witness:
  "fst (handler demo_env demo_event (snd (handler demo_env demo_event demo_world))) =
     Inr (JObj [(''jobId'', JStr ''abc123''), (''pages'', JInt 3), (''status'', JStr ''success'')]) \<and>
   uploads (calls (snd (handler demo_env demo_event (snd (handler demo_env demo_event demo_world))))) =
     [(''docs'', ''abc123_pages/page_1.png''), (''docs'', ''abc123_pages/page_2.png''),
      (''docs'', ''abc123_pages/page_3.png''),
      (''docs'', ''abc123_pages/page_1.png''), (''docs'', ''abc123_pages/page_2.png''),
      (''docs'', ''abc123_pages/page_3.png'')] \<and>
   s3_objects (snd (handler demo_env demo_event (snd (handler demo_env demo_event demo_world)))) =
     s3_objects (snd (handler demo_env demo_event demo_world)) \<and>
   s3_objects (snd (handler demo_env demo_event demo_world)) (''docs'', ''abc123_pages/page_3.png'') =
     Some [2, 9]"
  using second_run_writes_same_objects [of demo_event "JStr ''abc123''" demo_env demo_world
      "''docs''" "[7, 8, 9]" "[[7], [8], [9]]" "success (JStr ''abc123'') 3"]
  by (simp add: run_defs demo_defs source_opens_def uploads_def)

end
